theory Spec2Isabelle
  imports Complex_Main
begin

section \<open>Values\<close>

text \<open>
  The request bodies are JSON objects as \<^verbatim>\<open>request.get_json()\<close> returns them: Python
  dicts from field names to values. The values modelled are null, booleans, integers and
  strings; JSON numbers with a fraction or an exponent, arrays and nested objects are not
  modelled. A Python \<^verbatim>\<open>str\<close> is a list of code points below 256.
\<close>

datatype jval = JNull | JBool bool | JInt int | JStr string

type_synonym jobj = "string \<rightharpoonup> jval"

text \<open>Python's truth value of a JSON value (\<^verbatim>\<open>not data[field]\<close>).\<close>

fun truthy :: "jval \<Rightarrow> bool" where
  "truthy JNull = False"
| "truthy (JBool b) = b"
| "truthy (JInt n) = (n \<noteq> 0)"
| "truthy (JStr s) = (s \<noteq> [])"

text \<open>\<^verbatim>\<open>field not in data or not data[field]\<close>\<close>

definition missing :: "jobj \<Rightarrow> string \<Rightarrow> bool" where
  "missing data field = (case data field of None \<Rightarrow> True | Some v \<Rightarrow> \<not> truthy v)"

text \<open>
  A Python float: a finite value, an infinity or a NaN (\<^verbatim>\<open>float('nan')\<close> is a float).
\<close>

datatype pyfloat = Finite rat | PosInf | NegInf | NaN

text \<open>A bson ObjectId, as the number its twelve bytes spell.\<close>

type_synonym oid = nat

text \<open>A naive UTC \<^verbatim>\<open>datetime\<close>, in microseconds since the epoch.\<close>

type_synonym datetime = int

text \<open>\<^verbatim>\<open>timedelta(minutes=m)\<close>\<close>

definition timedelta_minutes :: "int \<Rightarrow> int" where
  "timedelta_minutes m = m * 60 * 1000000"

section \<open>Utility functions\<close>

definition ord :: "char \<Rightarrow> nat" where
  "ord c = of_char c"

text \<open>The character classes \<^verbatim>\<open>[A-Z]\<close>, \<^verbatim>\<open>[a-z]\<close>, \<^verbatim>\<open>\d\<close> (on code points below 256 the
  decimal digits are 0 to 9 only) and \<^verbatim>\<open>[@$!%*?&]\<close>.\<close>

definition cls_upper :: "char \<Rightarrow> bool" where
  "cls_upper c = (ord CHR ''A'' \<le> ord c \<and> ord c \<le> ord CHR ''Z'')"

definition cls_lower :: "char \<Rightarrow> bool" where
  "cls_lower c = (ord CHR ''a'' \<le> ord c \<and> ord c \<le> ord CHR ''z'')"

definition cls_digit :: "char \<Rightarrow> bool" where
  "cls_digit c = (ord CHR ''0'' \<le> ord c \<and> ord c \<le> ord CHR ''9'')"

definition cls_special :: "char \<Rightarrow> bool" where
  "cls_special c = (c \<in> set ''@$!%*?&'')"

text \<open>\<^verbatim>\<open>re.search\<close> of a one-character class: some character of the string is in it.\<close>

definition re_search :: "(char \<Rightarrow> bool) \<Rightarrow> string \<Rightarrow> bool" where
  "re_search cls s = list_ex cls s"

definition validate_password :: "string \<Rightarrow> bool" where
  "validate_password password =
     (if length password < 8 then False
      else if \<not> re_search cls_upper password then False
      else if \<not> re_search cls_lower password then False
      else if \<not> re_search cls_digit password then False
      else if \<not> re_search cls_special password then False
      else True)"

text \<open>
  \<^verbatim>\<open>validate_email\<close> matches \<^verbatim>\<open>^[a-zA-Z0-9._%+-]+@[a-zA-Z0-9.-]+\.[a-zA-Z]{2,}$\<close> with
  \<^verbatim>\<open>re.match\<close>. The pattern matches a string that splits into a local part, \<^verbatim>\<open>@\<close> at
  index \<open>i\<close>, a domain, a dot at index \<open>j\<close> and at least two letters; \<^verbatim>\<open>$\<close> also
  matches just before a newline that ends the string.
\<close>

definition cls_local :: "char \<Rightarrow> bool" where
  "cls_local c = (cls_lower c \<or> cls_upper c \<or> cls_digit c \<or> c \<in> set ''._%+-'')"

definition cls_domain :: "char \<Rightarrow> bool" where
  "cls_domain c = (cls_lower c \<or> cls_upper c \<or> cls_digit c \<or> c \<in> set ''.-'')"

definition cls_alpha :: "char \<Rightarrow> bool" where
  "cls_alpha c = (cls_lower c \<or> cls_upper c)"

definition email_pattern :: "string \<Rightarrow> bool" where
  "email_pattern s =
     list_ex (\<lambda>i. list_ex (\<lambda>j.
         i < j \<and> s ! i = CHR ''@'' \<and> s ! j = CHR ''.'' \<and>
         0 < i \<and> list_all cls_local (take i s) \<and>
         i + 1 < j \<and> list_all cls_domain (take (j - (i + 1)) (drop (i + 1) s)) \<and>
         j + 3 \<le> length s \<and> list_all cls_alpha (drop (j + 1) s))
       [0..<length s]) [0..<length s]"

definition validate_email :: "string \<Rightarrow> bool" where
  "validate_email email =
     (email_pattern email \<or>
      (email \<noteq> [] \<and> last email = CHR 0x0A \<and> email_pattern (butlast email)))"

text \<open>
  \<^verbatim>\<open>str.lower()\<close> on code points below 256: the ASCII capitals and the Latin-1 capitals
  (192 to 222, but not the multiplication sign 215) move up by 32.
\<close>

definition lower_char :: "char \<Rightarrow> char" where
  "lower_char c =
     (if (65 \<le> ord c \<and> ord c \<le> 90) \<or> (192 \<le> ord c \<and> ord c \<le> 222 \<and> ord c \<noteq> 215)
      then char_of (ord c + 32) else c)"

definition lower :: "string \<Rightarrow> string" where
  "lower s = map lower_char s"

section \<open>Library functions\<close>

text \<open>
  What the program calls in bson, datetime, werkzeug, the Python builtins and the store's
  regular expressions is a parameter of the model. \<open>None\<close> is the call raising.
  \<^item> \<open>ObjectId_str s\<close>: \<^verbatim>\<open>ObjectId(s)\<close> for a \<^verbatim>\<open>str\<close>;
  \<^item> \<open>fromisoformat_utc s\<close>: \<^verbatim>\<open>datetime(*datetime.fromisoformat(s).utctimetuple()[:6])\<close>;
  \<^item> \<open>int_str s\<close>, \<open>float_str s\<close>, \<open>float_int n\<close>: \<^verbatim>\<open>int(s)\<close>, \<^verbatim>\<open>float(s)\<close>, \<^verbatim>\<open>float(n)\<close>;
  \<^item> \<open>generate_password_hash\<close>: werkzeug's;
  \<^item> \<open>regex_i r\<close>: the store's case-insensitive search for the pattern \<open>r\<close>.
\<close>

record lib =
  ObjectId_str :: "string \<Rightarrow> oid option"
  fromisoformat_utc :: "string \<Rightarrow> datetime option"
  int_str :: "string \<Rightarrow> int option"
  float_str :: "string \<Rightarrow> pyfloat option"
  float_int :: "int \<Rightarrow> pyfloat option"
  generate_password_hash :: "string \<Rightarrow> string"
  regex_i :: "string \<Rightarrow> (string \<Rightarrow> bool) option"

text \<open>\<^verbatim>\<open>ObjectId(v)\<close>: a value that is not a string raises TypeError.\<close>

fun ObjectId :: "lib \<Rightarrow> jval \<Rightarrow> oid option" where
  "ObjectId lib (JStr s) = ObjectId_str lib s"
| "ObjectId lib v = None"

text \<open>\<^verbatim>\<open>float(v)\<close> and \<^verbatim>\<open>int(v)\<close>: \<^verbatim>\<open>None\<close> raises TypeError, a bool is 0 or 1.\<close>

fun py_float :: "lib \<Rightarrow> jval \<Rightarrow> pyfloat option" where
  "py_float lib JNull = None"
| "py_float lib (JBool b) = Some (Finite (if b then 1 else 0))"
| "py_float lib (JInt n) = float_int lib n"
| "py_float lib (JStr s) = float_str lib s"

fun py_int :: "lib \<Rightarrow> jval \<Rightarrow> int option" where
  "py_int lib JNull = None"
| "py_int lib (JBool b) = Some (if b then 1 else 0)"
| "py_int lib (JInt n) = Some n"
| "py_int lib (JStr s) = int_str lib s"

text \<open>\<^verbatim>\<open>data.get(key, default)\<close>\<close>

definition get_default :: "jobj \<Rightarrow> string \<Rightarrow> jval \<Rightarrow> jval" where
  "get_default data key d = (case data key of None \<Rightarrow> d | Some v \<Rightarrow> v)"

section \<open>The document store\<close>

text \<open>
  The four collections, each a list of documents in insertion order. The documents have
  the fields that \<^verbatim>\<open>register\<close>, \<^verbatim>\<open>book_appointment\<close> and \<^verbatim>\<open>db_seed.py\<close> write.
  \<open>users_email_unique\<close> says whether the unique index on \<^verbatim>\<open>users.email\<close> exists, which
  \<^verbatim>\<open>db_seed.py\<close> creates and \<^verbatim>\<open>app.py\<close> does not. The driver writes the integers
  of a command in at most 64 bits; the one integer the program computes itself and sends,
  the \<^verbatim>\<open>$skip\<close> of the listing, is checked against that range where it is sent. An
  integer of a request body that is beyond 64 bits and would be stored in a document, and
  the size limit of a document, are not modelled.
\<close>

record user =
  u_id :: oid
  u_email :: string
  u_password_hash :: string
  u_role :: string
  u_first_name :: jval
  u_last_name :: jval
  u_phone :: jval
  u_is_verified :: bool
  u_is_active :: bool
  u_created_at :: datetime
  u_updated_at :: datetime

record doctor_profile =
  dp_user_id :: oid
  dp_medical_license :: jval
  dp_specialty :: jval
  dp_consultation_fee :: pyfloat
  dp_rating :: pyfloat
  dp_years_experience :: int

record patient_profile =
  pp_user_id :: oid
  pp_date_of_birth :: jval
  pp_medical_history :: jval

record appointment =
  a_id :: oid
  a_patient_id :: oid
  a_doctor_id :: oid
  a_appointment_date :: datetime
  a_end_time :: datetime
  a_duration :: int
  a_consultation_type :: string
  a_status :: string
  a_consultation_fee :: pyfloat
  a_meeting_room :: oid
  a_symptoms :: jval
  a_patient_notes :: jval
  a_created_at :: datetime
  a_updated_at :: datetime

record db =
  users :: "user list"
  doctor_profiles :: "doctor_profile list"
  patient_profiles :: "patient_profile list"
  appointments :: "appointment list"
  users_email_unique :: bool

text \<open>
  \<^verbatim>\<open>mongo.db.users.insert_one\<close>: with the unique index, a document whose email is already
  stored raises DuplicateKeyError (\<open>None\<close>) and nothing is written.
\<close>

definition insert_user :: "db \<Rightarrow> user \<Rightarrow> db option" where
  "insert_user db u =
     (if users_email_unique db \<and> list_ex (\<lambda>v. u_email v = u_email u) (users db) then None
      else Some (db\<lparr>users := users db @ [u]\<rparr>))"

section \<open>Responses\<close>

record doctor_summary =
  ds_id :: oid
  ds_name :: jval
  ds_specialty :: jval
  ds_rating :: pyfloat
  ds_consultation_fee :: pyfloat
  ds_years_experience :: int
  ds_next_available :: datetime

record pagination =
  current_page :: int
  total_pages :: int
  total_doctors :: int
  has_next :: bool

text \<open>
  A response is the JSON body with its status code: an error envelope with its message
  (of a 500, the fixed part of the message, before the exception's text), or the data of
  the endpoint. \<open>Booked\<close> carries the stored appointment and the doctor's two names.
\<close>

datatype response =
    Error nat string
  | Registered oid string string
  | DoctorList "doctor_summary list" pagination
  | Booked appointment jval jval

fun status_code :: "response \<Rightarrow> nat" where
  "status_code (Error code message) = code"
| "status_code (Registered user_id email user_type) = 201"
| "status_code (DoctorList doctors pag) = 200"
| "status_code (Booked a first_name last_name) = 201"

section \<open>Registration\<close>

text \<open>
  The second half of \<^verbatim>\<open>register\<close>, from \<^verbatim>\<open>user_doc\<close> on: the user document is inserted,
  then the profile document of its role is built and inserted. What raises after the first
  insert is caught with the user document already stored.
\<close>

definition user_doc ::
  "lib \<Rightarrow> datetime \<Rightarrow> oid \<Rightarrow> jobj \<Rightarrow> string \<Rightarrow> string \<Rightarrow> string \<Rightarrow> jval \<Rightarrow> jval \<Rightarrow> user" where
  "user_doc lib now new_id data email password user_type first_name last_name =
     \<lparr>u_id = new_id, u_email = lower email,
      u_password_hash = generate_password_hash lib password,
      u_role = user_type, u_first_name = first_name, u_last_name = last_name,
      u_phone = get_default data ''phone'' JNull,
      u_is_verified = True, u_is_active = True,
      u_created_at = now, u_updated_at = now\<rparr>"

definition create_account ::
  "lib \<Rightarrow> datetime \<Rightarrow> oid \<Rightarrow> db \<Rightarrow> jobj \<Rightarrow> string \<Rightarrow> string \<Rightarrow> string \<Rightarrow> jval \<Rightarrow> jval
     \<Rightarrow> response \<times> db" where
  "create_account lib now new_id db data email password user_type first_name last_name =
    (case insert_user db
            (user_doc lib now new_id data email password user_type first_name last_name) of
       None \<Rightarrow> (Error 500 ''Registration failed'', db)
     | Some db1 \<Rightarrow>
         if user_type = ''doctor'' then
          (case (case data ''consultation_fee'' of None \<Rightarrow> Some (Finite 150)
                                                   | Some v \<Rightarrow> py_float lib v) of
             None \<Rightarrow> (Error 500 ''Registration failed'', db1)
           | Some fee \<Rightarrow>
          (case (case data ''years_experience'' of None \<Rightarrow> Some 0
                                                  | Some v \<Rightarrow> py_int lib v) of
             None \<Rightarrow> (Error 500 ''Registration failed'', db1)
           | Some years \<Rightarrow>
              (Registered new_id email user_type,
               db1\<lparr>doctor_profiles := doctor_profiles db1 @
                 [\<lparr>dp_user_id = new_id,
                   dp_medical_license = get_default data ''medical_license'' (JStr []),
                   dp_specialty = get_default data ''specialty'' (JStr []),
                   dp_consultation_fee = fee,
                   dp_rating = Finite 5,
                   dp_years_experience = years\<rparr>]\<rparr>)))
         else
           (Registered new_id email user_type,
            db1\<lparr>patient_profiles := patient_profiles db1 @
              [\<lparr>pp_user_id = new_id,
                pp_date_of_birth = get_default data ''date_of_birth'' JNull,
                pp_medical_history = get_default data ''medical_history'' (JStr [])\<rparr>]\<rparr>))"

text \<open>
  \<^verbatim>\<open>register\<close>: the checks in the order of the source, then the account. A field that is
  not a string where the code needs one (\<^verbatim>\<open>re.match\<close>, \<^verbatim>\<open>len\<close>) raises, which the
  handler's \<^verbatim>\<open>except\<close> turns into a 500. \<open>new_id\<close> is the id the store gives the user
  document.
\<close>

definition register :: "lib \<Rightarrow> datetime \<Rightarrow> oid \<Rightarrow> db \<Rightarrow> jobj \<Rightarrow> response \<times> db" where
  "register lib now new_id db data =
    (case find (missing data) [''email'', ''password'', ''user_type'', ''first_name'', ''last_name''] of
       Some field \<Rightarrow> (Error 400 (''Missing required field: '' @ field), db)
     | None \<Rightarrow>
    (case data ''email'' of
       Some (JStr email) \<Rightarrow>
         if \<not> validate_email email then (Error 400 ''Invalid email format'', db)
         else
        (case data ''password'' of
           Some (JStr password) \<Rightarrow>
             if \<not> validate_password password
             then (Error 400 ''Password must be at least 8 characters with uppercase, lowercase, number, and special character'', db)
             else if find (\<lambda>u. u_email u = email) (users db) \<noteq> None
             then (Error 409 ''Email already registered'', db)
             else
            (case (data ''user_type'', data ''first_name'', data ''last_name'') of
               (Some (JStr user_type), Some first_name, Some last_name) \<Rightarrow>
                 if user_type \<notin> set [''patient'', ''doctor'']
                 then (Error 400 ''Invalid user type. Must be patient or doctor'', db)
                 else create_account lib now new_id db data email password user_type
                        first_name last_name
             | (Some user_type, Some first_name, Some last_name) \<Rightarrow>
                 (Error 400 ''Invalid user type. Must be patient or doctor'', db)
             | _ \<Rightarrow> (Error 500 ''Registration failed'', db))
         | _ \<Rightarrow> (Error 500 ''Registration failed'', db))
     | _ \<Rightarrow> (Error 500 ''Registration failed'', db)))"

section \<open>Doctor directory\<close>

text \<open>
  The store's \<^verbatim>\<open>$concat\<close>, operand by operand: a null operand makes the result null, an
  operand that is neither null nor a string is an error (\<open>None\<close>).
\<close>

fun mongo_concat :: "jval list \<Rightarrow> string \<Rightarrow> jval option" where
  "mongo_concat [] acc = Some (JStr acc)"
| "mongo_concat (JNull # vs) acc = Some JNull"
| "mongo_concat (JStr s # vs) acc = mongo_concat vs (acc @ s)"
| "mongo_concat (v # vs) acc = None"

text \<open>The \<^verbatim>\<open>$project\<close> stage on one joined row.\<close>

definition project_doctor :: "datetime \<Rightarrow> user \<times> doctor_profile \<Rightarrow> doctor_summary option" where
  "project_doctor now row =
     (case row of (u, p) \<Rightarrow>
       (case mongo_concat [u_first_name u, JStr '' '', u_last_name u] [] of
          None \<Rightarrow> None
        | Some name \<Rightarrow>
            Some \<lparr>ds_id = u_id u, ds_name = name, ds_specialty = dp_specialty p,
                  ds_rating = dp_rating p, ds_consultation_fee = dp_consultation_fee p,
                  ds_years_experience = dp_years_experience p, ds_next_available = now\<rparr>))"

text \<open>
  The aggregation pipeline before \<^verbatim>\<open>$skip\<close> and \<^verbatim>\<open>$limit\<close>, its stages in the order
  written: the active doctors, joined with their profiles (\<^verbatim>\<open>$lookup\<close> and \<^verbatim>\<open>$unwind\<close>:
  one row for each profile of the user), the specialty filter when a specialty is given,
  the location stage, which keeps every row (each user document has a first name), and
  the projection. \<open>None\<close> is the store raising: a pattern it refuses, or a name that is
  not a string.
\<close>

definition doctor_pipeline ::
  "lib \<Rightarrow> datetime \<Rightarrow> db \<Rightarrow> string option \<Rightarrow> string option \<Rightarrow> doctor_summary list option" where
  "doctor_pipeline lib now db specialty location =
     (let matched = filter (\<lambda>u. u_role u = ''doctor'' \<and> u_is_active u) (users db);
          joined = concat (map (\<lambda>u. map (\<lambda>p. (u, p))
                     (filter (\<lambda>p. dp_user_id p = u_id u) (doctor_profiles db))) matched);
          filtered =
            (case specialty of
               None \<Rightarrow> Some joined
             | Some pat \<Rightarrow>
                 if pat = [] then Some joined
                 else (case regex_i lib pat of
                         None \<Rightarrow> None
                       | Some m \<Rightarrow>
                           Some (filter (\<lambda>(u, p). case dp_specialty p of JStr t \<Rightarrow> m t | _ \<Rightarrow> False)
                                   joined)))
      in case filtered of
           None \<Rightarrow> None
         | Some rows \<Rightarrow> those (map (project_doctor now) rows))"

text \<open>
  The driver encodes an integer of a command in at most 64 bits; for a larger one the
  encoding raises OverflowError and nothing is sent.
\<close>

definition bson_int :: "int \<Rightarrow> bool" where
  "bson_int n = (- (2 ^ 63) \<le> n \<and> n \<le> 2 ^ 63 - 1)"

text \<open>
  The first \<^verbatim>\<open>aggregate\<close> call, whose pipeline ends in \<^verbatim>\<open>$skip\<close> and \<^verbatim>\<open>$limit\<close>, and the
  second, whose pipeline ends in \<^verbatim>\<open>$count\<close> instead (no row gives no document, read as
  0). \<open>None\<close> is the call raising.
\<close>

definition aggregate_page ::
  "lib \<Rightarrow> datetime \<Rightarrow> db \<Rightarrow> string option \<Rightarrow> string option \<Rightarrow> int \<Rightarrow> int
     \<Rightarrow> doctor_summary list option" where
  "aggregate_page lib now db specialty location skip limit =
     (if bson_int skip \<and> bson_int limit
      then map_option (\<lambda>rows. take (nat limit) (drop (nat skip) rows))
             (doctor_pipeline lib now db specialty location)
      else None)"

definition aggregate_count ::
  "lib \<Rightarrow> datetime \<Rightarrow> db \<Rightarrow> string option \<Rightarrow> string option \<Rightarrow> int option" where
  "aggregate_count lib now db specialty location =
     map_option (\<lambda>rows. int (length rows)) (doctor_pipeline lib now db specialty location)"

text \<open>
  \<^verbatim>\<open>get_available_doctors\<close>. \<^verbatim>\<open>int\<close> of an argument that is no number raises ValueError
  (400); whatever an \<^verbatim>\<open>aggregate\<close> call raises is caught as a 500.
\<close>

definition get_available_doctors ::
  "lib \<Rightarrow> datetime \<Rightarrow> db \<Rightarrow> string option \<Rightarrow> string option \<Rightarrow> string option \<Rightarrow> string option
     \<Rightarrow> response" where
  "get_available_doctors lib now db specialty location page_arg limit_arg =
    (case (case page_arg of None \<Rightarrow> Some 1 | Some s \<Rightarrow> int_str lib s) of
       None \<Rightarrow> Error 400 ''Invalid page or limit parameter''
     | Some page \<Rightarrow>
    (case (case limit_arg of None \<Rightarrow> Some 10 | Some s \<Rightarrow> int_str lib s) of
       None \<Rightarrow> Error 400 ''Invalid page or limit parameter''
     | Some limit \<Rightarrow>
         if page < 1 \<or> limit < 1 \<or> limit > 50
         then Error 400 ''Invalid pagination parameters''
         else
          (let skip = (page - 1) * limit in
           case aggregate_page lib now db specialty location skip limit of
             None \<Rightarrow> Error 500 ''Failed to retrieve doctors''
           | Some doctors \<Rightarrow>
              (case aggregate_count lib now db specialty location of
                 None \<Rightarrow> Error 500 ''Failed to retrieve doctors''
               | Some n \<Rightarrow>
                  (let total_doctors = n;
                       total_pages = (total_doctors + limit - 1) div limit
                   in DoctorList doctors
                        \<lparr>current_page = page, total_pages = total_pages,
                         total_doctors = total_doctors, has_next = page < total_pages\<rparr>)))))"

section \<open>Booking\<close>

text \<open>\<^verbatim>\<open>s.replace('Z', '+00:00')\<close>\<close>

definition replace_Z :: "string \<Rightarrow> string" where
  "replace_Z s = concat (map (\<lambda>c. if c = CHR ''Z'' then ''+00:00'' else [c]) s)"

text \<open>
  The date block: \<^verbatim>\<open>replace\<close> on a value that is not a string raises, and the bare
  \<^verbatim>\<open>except\<close> catches whatever is raised.
\<close>

fun parse_appointment_date :: "lib \<Rightarrow> jval \<Rightarrow> datetime option" where
  "parse_appointment_date lib (JStr s) = fromisoformat_utc lib (replace_Z s)"
| "parse_appointment_date lib v = None"

text \<open>\<^verbatim>\<open>data['duration'] not in [15, 30, 45, 60]\<close>: \<open>None\<close> when it is not in the list.\<close>

fun duration_in_list :: "jval \<Rightarrow> int option" where
  "duration_in_list (JInt d) = (if d \<in> set [15, 30, 45, 60] then Some d else None)"
| "duration_in_list v = None"

text \<open>\<^verbatim>\<open>data['consultation_type'] not in ['video', 'audio', 'chat']\<close>\<close>

fun consultation_type_in_list :: "jval \<Rightarrow> string option" where
  "consultation_type_in_list (JStr t) = (if t \<in> set [''video'', ''audio'', ''chat''] then Some t else None)"
| "consultation_type_in_list v = None"

text \<open>
  The filter of the conflict query, on one stored appointment. The third alternative of
  \<^verbatim>\<open>$or\<close> is a dict literal with the key \<^verbatim>\<open>'appointment_date'\<close> twice; Python keeps the
  last value, \<^verbatim>\<open>{'$lt': end_time}\<close>, and the first (\<^verbatim>\<open>{'$gte': appointment_date}\<close>) is
  lost.
\<close>

definition conflict_query :: "oid \<Rightarrow> datetime \<Rightarrow> datetime \<Rightarrow> appointment \<Rightarrow> bool" where
  "conflict_query doctor_id appointment_date end_time a =
     (a_doctor_id a = doctor_id \<and>
      a_status a \<notin> set [''cancelled'', ''no_show''] \<and>
      ((a_appointment_date a \<le> appointment_date \<and> a_end_time a > appointment_date) \<or>
       (a_appointment_date a < end_time \<and> a_end_time a \<ge> end_time) \<or>
       a_appointment_date a < end_time))"

text \<open>
  \<open>user_id\<close> is the identity of the token, \<open>new_id\<close> the id the store gives the
  appointment and \<open>room\<close> the \<^verbatim>\<open>ObjectId()\<close> of the meeting link.
\<close>

definition book_appointment ::
  "lib \<Rightarrow> datetime \<Rightarrow> oid \<Rightarrow> oid \<Rightarrow> db \<Rightarrow> string \<Rightarrow> jobj \<Rightarrow> response \<times> db" where
  "book_appointment lib now new_id room db user_id data =
    (case find (missing data) [''doctor_id'', ''appointment_date'', ''duration'', ''consultation_type''] of
       Some field \<Rightarrow> (Error 400 (''Missing required field: '' @ field), db)
     | None \<Rightarrow>
    (case (case data ''doctor_id'' of None \<Rightarrow> None | Some v \<Rightarrow> ObjectId lib v) of
       None \<Rightarrow> (Error 400 ''Invalid doctor ID format'', db)
     | Some doctor_id \<Rightarrow>
    (case find (\<lambda>u. u_id u = doctor_id \<and> u_role u = ''doctor'' \<and> u_is_active u) (users db) of
       None \<Rightarrow> (Error 404 ''Doctor not found or inactive'', db)
     | Some doctor \<Rightarrow>
    (case (case data ''appointment_date'' of None \<Rightarrow> None | Some v \<Rightarrow> parse_appointment_date lib v) of
       None \<Rightarrow> (Error 400 ''Invalid appointment date format. Use ISO 8601 (e.g., 2025-07-25T14:00:00Z)'', db)
     | Some appointment_date \<Rightarrow>
         if appointment_date \<le> now
         then (Error 400 ''Appointment must be scheduled for future date'', db)
         else
        (case (data ''duration'', data ''consultation_type'') of
           (Some dv, Some cv) \<Rightarrow>
            (case duration_in_list dv of
               None \<Rightarrow> (Error 400 ''Invalid duration. Must be 15, 30, 45, or 60 minutes'', db)
             | Some duration \<Rightarrow>
            (case consultation_type_in_list cv of
               None \<Rightarrow> (Error 400 ''Invalid consultation type'', db)
             | Some consultation_type \<Rightarrow>
                (let end_time = appointment_date + timedelta_minutes duration in
                 if find (conflict_query doctor_id appointment_date end_time) (appointments db) \<noteq> None
                 then (Error 409 ''Time slot no longer available'', db)
                 else
                  (let consultation_fee =
                         (case find (\<lambda>p. dp_user_id p = doctor_id) (doctor_profiles db) of
                            None \<Rightarrow> Finite 150
                          | Some p \<Rightarrow> dp_consultation_fee p)
                   in case ObjectId_str lib user_id of
                        None \<Rightarrow> (Error 500 ''Failed to book appointment'', db)
                      | Some patient_id \<Rightarrow>
                         (let appointment_doc =
                                \<lparr>a_id = new_id, a_patient_id = patient_id, a_doctor_id = doctor_id,
                                 a_appointment_date = appointment_date, a_end_time = end_time,
                                 a_duration = duration, a_consultation_type = consultation_type,
                                 a_status = ''confirmed'', a_consultation_fee = consultation_fee,
                                 a_meeting_room = room,
                                 a_symptoms = get_default data ''symptoms'' (JStr []),
                                 a_patient_notes = get_default data ''notes'' (JStr []),
                                 a_created_at = now, a_updated_at = now\<rparr>
                          in (Booked appointment_doc (u_first_name doctor) (u_last_name doctor),
                              db\<lparr>appointments := appointments db @ [appointment_doc]\<rparr>))))))
         | _ \<Rightarrow> (Error 500 ''Failed to book appointment'', db))))))"

text \<open>
  The route: \<^verbatim>\<open>@role_required('patient')\<close> around \<^verbatim>\<open>book_appointment\<close>. The decorator's
  \<^verbatim>\<open>ObjectId(user_id)\<close> is outside every \<^verbatim>\<open>try\<close>, so its failure is the application's
  500 handler.
\<close>

definition book_appointment_route ::
  "lib \<Rightarrow> datetime \<Rightarrow> oid \<Rightarrow> oid \<Rightarrow> db \<Rightarrow> string \<Rightarrow> jobj \<Rightarrow> response \<times> db" where
  "book_appointment_route lib now new_id room db user_id data =
    (case ObjectId_str lib user_id of
       None \<Rightarrow> (Error 500 ''Internal server error'', db)
     | Some uid \<Rightarrow>
        (case find (\<lambda>u. u_id u = uid) (users db) of
           None \<Rightarrow> (Error 404 ''User not found'', db)
         | Some user \<Rightarrow>
             if u_role user \<noteq> ''patient''
             then (Error 403 ''Access denied. Patient role required.'', db)
             else book_appointment lib now new_id room db user_id data))"

section \<open>The conflict check of the specification\<close>

text \<open>
  Two half-open intervals \<open>[a1, a2)\<close> and \<open>[b1, b2)\<close> overlap iff \<open>a1 < b2\<close> and
  \<open>b1 < a2\<close>; a slot conflicts when an appointment of the same doctor whose status is
  neither cancelled nor no_show overlaps it.
\<close>

definition spec_overlap :: "datetime \<Rightarrow> datetime \<Rightarrow> datetime \<Rightarrow> datetime \<Rightarrow> bool" where
  "spec_overlap a1 a2 b1 b2 = (a1 < b2 \<and> b1 < a2)"

definition spec_has_conflict :: "db \<Rightarrow> oid \<Rightarrow> datetime \<Rightarrow> datetime \<Rightarrow> bool" where
  "spec_has_conflict db doctor_id proposed_start proposed_end =
     list_ex (\<lambda>a. a_doctor_id a = doctor_id \<and>
                  a_status a \<notin> set [''cancelled'', ''no_show''] \<and>
                  spec_overlap (a_appointment_date a) (a_end_time a) proposed_start proposed_end)
       (appointments db)"

section \<open>The validation order of the specification\<close>

text \<open>
  The seven checks of the booking operation as the specification lists them: required
  fields present and non-empty, doctor id parses, doctor exists with role doctor and is
  active, date parses, date in the future, duration valid, consultation type valid.
\<close>

definition booking_fields :: "string list" where
  "booking_fields = [''doctor_id'', ''appointment_date'', ''duration'', ''consultation_type'']"

definition check_fields :: "jobj \<Rightarrow> bool" where
  "check_fields data = list_all (\<lambda>f. \<not> missing data f) booking_fields"

definition check_doctor_id :: "lib \<Rightarrow> jobj \<Rightarrow> bool" where
  "check_doctor_id lib data =
     (case data ''doctor_id'' of None \<Rightarrow> False | Some v \<Rightarrow> ObjectId lib v \<noteq> None)"

definition check_doctor :: "lib \<Rightarrow> db \<Rightarrow> jobj \<Rightarrow> bool" where
  "check_doctor lib db data =
     (case data ''doctor_id'' of
        None \<Rightarrow> False
      | Some v \<Rightarrow>
         (case ObjectId lib v of
            None \<Rightarrow> False
          | Some d \<Rightarrow> list_ex (\<lambda>u. u_id u = d \<and> u_role u = ''doctor'' \<and> u_is_active u) (users db)))"

definition check_date :: "lib \<Rightarrow> jobj \<Rightarrow> bool" where
  "check_date lib data =
     (case data ''appointment_date'' of
        None \<Rightarrow> False
      | Some v \<Rightarrow> parse_appointment_date lib v \<noteq> None)"

definition check_future :: "lib \<Rightarrow> datetime \<Rightarrow> jobj \<Rightarrow> bool" where
  "check_future lib now data =
     (case data ''appointment_date'' of
        None \<Rightarrow> False
      | Some v \<Rightarrow> (case parse_appointment_date lib v of None \<Rightarrow> False | Some t \<Rightarrow> now < t))"

definition check_duration :: "jobj \<Rightarrow> bool" where
  "check_duration data =
     (case data ''duration'' of Some (JInt d) \<Rightarrow> d \<in> {15, 30, 45, 60} | _ \<Rightarrow> False)"

definition check_consultation_type :: "jobj \<Rightarrow> bool" where
  "check_consultation_type data =
     (case data ''consultation_type'' of
        Some (JStr t) \<Rightarrow> t \<in> {''video'', ''audio'', ''chat''}
      | _ \<Rightarrow> False)"

text \<open>
  The checks in their order, each with the response of its failure (the first names the
  first field that is missing). The first check that fails decides.
\<close>

definition spec_booking_checks :: "lib \<Rightarrow> datetime \<Rightarrow> db \<Rightarrow> jobj \<Rightarrow> (bool \<times> response) list" where
  "spec_booking_checks lib now db data =
     [(check_fields data,
       Error 400 (''Missing required field: '' @
         (case find (missing data) booking_fields of Some f \<Rightarrow> f | None \<Rightarrow> []))),
      (check_doctor_id lib data, Error 400 ''Invalid doctor ID format''),
      (check_doctor lib db data, Error 404 ''Doctor not found or inactive''),
      (check_date lib data,
       Error 400 ''Invalid appointment date format. Use ISO 8601 (e.g., 2025-07-25T14:00:00Z)''),
      (check_future lib now data, Error 400 ''Appointment must be scheduled for future date''),
      (check_duration data, Error 400 ''Invalid duration. Must be 15, 30, 45, or 60 minutes''),
      (check_consultation_type data, Error 400 ''Invalid consultation type'')]"

definition first_failure :: "(bool \<times> response) list \<Rightarrow> response option" where
  "first_failure checks = map_option snd (find (\<lambda>c. \<not> fst c) checks)"

section \<open>Sample data\<close>

text \<open>
  The library's answers on the strings the examples use: two ObjectIds, six instants of
  January 2030 and one of December 2029, and a few numbers. No example filters by
  specialty, so the sample store refuses every pattern.
\<close>

definition sample_lib :: lib where
  "sample_lib =
     \<lparr>ObjectId_str = map_of
        [(''0000000000000000000000d1'', 209), (''0000000000000000000000a1'', 161)],
      fromisoformat_utc = map_of
        [(''2030-01-01T00:00:00+00:00'', 1893456000000000),
         (''2030-01-07T09:00:00+00:00'', 1894006800000000),
         (''2030-01-07T10:00:00+00:00'', 1894010400000000),
         (''2030-01-07T10:15:00+00:00'', 1894011300000000),
         (''2030-01-07T10:30:00+00:00'', 1894012200000000),
         (''2030-01-07T14:00:00+00:00'', 1894024800000000),
         (''2029-12-31T10:00:00+00:00'', 1893405600000000)],
      int_str = map_of [(''1'', 1), (''2'', 2), (''3'', 3), (''4'', 4), (''10'', 10),
                        (''922337203685477582'', 922337203685477582)],
      float_str = map_of [(''120'', Finite 120)],
      float_int = (\<lambda>n. Some (Finite (of_int n))),
      generate_password_hash = (\<lambda>password. ''scrypt:'' @ password),
      regex_i = (\<lambda>pat. None)\<rparr>"

text \<open>The clock of the examples: 2030-01-01T00:00:00.\<close>

definition sample_now :: datetime where
  "sample_now = 1893456000000000"

definition dr_johnson :: user where
  "dr_johnson =
     \<lparr>u_id = 209, u_email = ''dr.johnson@mediconnect.com'',
      u_password_hash = ''scrypt:Doctor123!'', u_role = ''doctor'',
      u_first_name = JStr ''Sarah'', u_last_name = JStr ''Johnson'',
      u_phone = JStr ''+1-416-555-0124'', u_is_verified = True, u_is_active = True,
      u_created_at = 1893000000000000, u_updated_at = 1893000000000000\<rparr>"

definition john_smith :: user where
  "john_smith =
     \<lparr>u_id = 161, u_email = ''john.smith@email.com'',
      u_password_hash = ''scrypt:Patient123!'', u_role = ''patient'',
      u_first_name = JStr ''John'', u_last_name = JStr ''Smith'',
      u_phone = JStr ''+1-416-555-0123'', u_is_verified = True, u_is_active = True,
      u_created_at = 1893000000000000, u_updated_at = 1893000000000000\<rparr>"

definition johnson_profile :: doctor_profile where
  "johnson_profile =
     \<lparr>dp_user_id = 209, dp_medical_license = JStr ''MD123456789'',
      dp_specialty = JStr ''Cardiology'', dp_consultation_fee = Finite 150,
      dp_rating = Finite (24 / 5), dp_years_experience = 12\<rparr>"

definition smith_profile :: patient_profile where
  "smith_profile =
     \<lparr>pp_user_id = 161, pp_date_of_birth = JStr ''1978-05-15'',
      pp_medical_history = JStr ''Hypertension, Type 2 Diabetes''\<rparr>"

text \<open>Dr Johnson's confirmed appointment on 2030-01-07 from 10:00 to 10:30.\<close>

definition ten_to_half_past :: appointment where
  "ten_to_half_past =
     \<lparr>a_id = 500, a_patient_id = 161, a_doctor_id = 209,
      a_appointment_date = 1894010400000000, a_end_time = 1894012200000000,
      a_duration = 30, a_consultation_type = ''video'', a_status = ''confirmed'',
      a_consultation_fee = Finite 150, a_meeting_room = 501,
      a_symptoms = JStr ''Chest pain'', a_patient_notes = JStr [],
      a_created_at = 1893000000000000, a_updated_at = 1893000000000000\<rparr>"

definition sample_db :: db where
  "sample_db =
     \<lparr>users = [dr_johnson, john_smith], doctor_profiles = [johnson_profile],
      patient_profiles = [smith_profile], appointments = [ten_to_half_past],
      users_email_unique = True\<rparr>"

text \<open>A booking request of John Smith for thirty minutes of video with Dr Johnson.\<close>

definition book_request :: "string \<Rightarrow> jobj" where
  "book_request date =
     map_of [(''doctor_id'', JStr ''0000000000000000000000d1''),
             (''appointment_date'', JStr date),
             (''duration'', JInt 30),
             (''consultation_type'', JStr ''video'')]"

text \<open>A registration request, with its email, user type and further fields.\<close>

definition register_request :: "string \<Rightarrow> string \<Rightarrow> (string \<times> jval) list \<Rightarrow> jobj" where
  "register_request email user_type extra =
     map_of ([(''email'', JStr email), (''password'', JStr ''Passw0rd!''),
              (''user_type'', JStr user_type), (''first_name'', JStr ''Priya''),
              (''last_name'', JStr ''Patel'')] @ extra)"

text \<open>A store with \<open>n\<close> active doctors, each with one profile.\<close>

definition numbered_doctor :: "nat \<Rightarrow> user" where
  "numbered_doctor k =
     \<lparr>u_id = k, u_email = ''doctor@mediconnect.com'',
      u_password_hash = ''scrypt:Doctor123!'', u_role = ''doctor'',
      u_first_name = JStr ''Sarah'', u_last_name = JStr ''Johnson'',
      u_phone = JNull, u_is_verified = True, u_is_active = True,
      u_created_at = 1893000000000000, u_updated_at = 1893000000000000\<rparr>"

definition numbered_profile :: "nat \<Rightarrow> doctor_profile" where
  "numbered_profile k =
     \<lparr>dp_user_id = k, dp_medical_license = JStr ''MD123456789'',
      dp_specialty = JStr ''Cardiology'', dp_consultation_fee = Finite 150,
      dp_rating = Finite 5, dp_years_experience = 12\<rparr>"

definition doctors_db :: "nat \<Rightarrow> db" where
  "doctors_db n =
     \<lparr>users = map numbered_doctor [0..<n], doctor_profiles = map numbered_profile [0..<n],
      patient_profiles = [], appointments = [], users_email_unique = False\<rparr>"

text \<open>The row of the listing for a numbered doctor, at the clock of the examples.\<close>

definition numbered_summary :: "nat \<Rightarrow> doctor_summary" where
  "numbered_summary k =
     \<lparr>ds_id = k, ds_name = JStr ''Sarah Johnson'', ds_specialty = JStr ''Cardiology'',
      ds_rating = Finite 5, ds_consultation_fee = Finite 150, ds_years_experience = 12,
      ds_next_available = sample_now\<rparr>"

text \<open>
  The registration of Dr Patel, whose request also carries a rating, and the documents it
  stores.
\<close>

definition patel_request :: jobj where
  "patel_request =
     register_request ''dr.patel@mediconnect.com'' ''doctor''
       [(''specialty'', JStr ''Family Medicine''), (''consultation_fee'', JInt 100),
        (''years_experience'', JInt 15), (''rating'', JInt 1)]"

definition dr_patel :: user where
  "dr_patel =
     \<lparr>u_id = 210, u_email = ''dr.patel@mediconnect.com'',
      u_password_hash = ''scrypt:Passw0rd!'', u_role = ''doctor'',
      u_first_name = JStr ''Priya'', u_last_name = JStr ''Patel'',
      u_phone = JNull, u_is_verified = True, u_is_active = True,
      u_created_at = sample_now, u_updated_at = sample_now\<rparr>"

definition patel_profile :: doctor_profile where
  "patel_profile =
     \<lparr>dp_user_id = 210, dp_medical_license = JStr [],
      dp_specialty = JStr ''Family Medicine'', dp_consultation_fee = Finite 100,
      dp_rating = Finite 5, dp_years_experience = 15\<rparr>"

text \<open>
  A booking request for a past date whose duration and consultation type are not in the
  lists.
\<close>

definition past_request :: jobj where
  "past_request =
     map_of [(''doctor_id'', JStr ''0000000000000000000000d1''),
             (''appointment_date'', JStr ''2029-12-31T10:00:00Z''),
             (''duration'', JInt 20),
             (''consultation_type'', JStr ''fax'')]"

section \<open>Password policy\<close>












section \<open>Pagination of the doctor listing\<close>

lemma div_bounds:
  fixes t l :: int
  assumes "0 < l"
  shows "((t + l - 1) div l - 1) * l < t" and "t \<le> (t + l - 1) div l * l"
proof -
  define q where "q = (t + l - 1) div l"
  define r where "r = (t + l - 1) mod l"
  have eq: "t + l - 1 = q * l + r"
    by (simp add: q_def r_def)
  have r: "0 \<le> r" "r < l"
    using assms by (simp_all add: r_def)
  show "((t + l - 1) div l - 1) * l < t"
    using eq r unfolding q_def [symmetric] by (simp add: algebra_simps)
  show "t \<le> (t + l - 1) div l * l"
    using eq r unfolding q_def [symmetric] by (simp add: algebra_simps)
qed

lemma ceil_div:
  fixes t l :: int
  assumes "0 < l"
  shows "(t + l - 1) div l = \<lceil>real_of_int t / real_of_int l\<rceil>"
proof -
  let ?q = "(t + l - 1) div l"
  have lo: "real_of_int ((?q - 1) * l) < real_of_int t"
    using div_bounds(1) [OF assms, of t] by (simp only: of_int_less_iff)
  have hi: "real_of_int t \<le> real_of_int (?q * l)"
    using div_bounds(2) [OF assms, of t] by (simp only: of_int_le_iff)
  have l: "0 < real_of_int l"
    using assms by simp
  have "real_of_int ?q - 1 < real_of_int t / real_of_int l"
    using lo l by (simp add: pos_less_divide_eq)
  moreover have "real_of_int t / real_of_int l \<le> real_of_int ?q"
    using hi l by (simp add: pos_divide_le_eq)
  ultimately show ?thesis
    by (simp add: ceiling_unique)
qed

lemma beyond_last_page:
  fixes t l p :: int
  assumes "0 < l" "(t + l - 1) div l < p"
  shows "t \<le> (p - 1) * l"
proof -
  have "(t + l - 1) div l \<le> p - 1"
    using assms(2) by simp
  then have "(t + l - 1) div l * l \<le> (p - 1) * l"
    using assms(1) by (simp add: mult_right_mono)
  with div_bounds(2) [OF assms(1), of t] show ?thesis
    by linarith
qed

text \<open>The \<^verbatim>\<open>$skip\<close> and \<^verbatim>\<open>$limit\<close> of a valid page and limit that the driver can encode.\<close>

lemma skip_limit_encoded:
  fixes page limit :: int
  assumes "1 \<le> page" "1 \<le> limit" "limit \<le> 50" "(page - 1) * limit \<le> 2 ^ 63 - 1"
  shows "bson_int ((page - 1) * limit) \<and> bson_int limit"
proof -
  have "0 \<le> (page - 1) * limit"
    using assms(1,2) by simp
  then show ?thesis
    using assms(2,3,4) by (simp add: bson_int_def)
qed

text \<open>A \<^verbatim>\<open>$skip\<close> beyond 64 bits: the first \<^verbatim>\<open>aggregate\<close> call raises and the answer is 500.\<close>

lemma skip_overflow:
  assumes page: "(case page_arg of None \<Rightarrow> Some 1 | Some s \<Rightarrow> int_str lib s) = Some page"
    and limit: "(case limit_arg of None \<Rightarrow> Some 10 | Some s \<Rightarrow> int_str lib s) = Some limit"
    and valid: "1 \<le> page" "1 \<le> limit" "limit \<le> 50"
    and beyond: "2 ^ 63 - 1 < (page - 1) * limit"
  shows "get_available_doctors lib now db specialty location page_arg limit_arg =
           Error 500 ''Failed to retrieve doctors''"
  using valid beyond
  by (simp add: get_available_doctors_def aggregate_page_def bson_int_def page limit)

text \<open>
  C6, as stated, fails for a page whose \<^verbatim>\<open>$skip\<close> is beyond 64 bits: with 23 doctors,
  which the store lists, page 922337203685477582 and limit 10 are valid and the answer
  is a 500, with no pagination.
\<close>

theorem doctor_listing_pagination_counterexample:
  "int_str sample_lib ''922337203685477582'' = Some 922337203685477582 \<and>
   (1::int) \<le> 922337203685477582 \<and>
   int_str sample_lib ''10'' = Some 10 \<and> (1::int) \<le> 10 \<and> (10::int) \<le> 50 \<and>
   doctor_pipeline sample_lib sample_now (doctors_db 23) None None =
     Some (map numbered_summary [0..<23]) \<and>
   get_available_doctors sample_lib sample_now (doctors_db 23) None None
       (Some ''922337203685477582'') (Some ''10'') =
     Error 500 ''Failed to retrieve doctors''"
  by code_simp

text \<open>
  C6. For a page of at least 1 and a limit from 1 to 50 whose \<^verbatim>\<open>$skip\<close>,
  \<open>(page - 1) * limit\<close>, is at most \<open>2 ^ 63 - 1\<close>, when the store answers the query, the
  listing is a 200 whose doctors are the rows after skipping \<open>(page - 1) * limit\<close> of
  them, cut at \<open>limit\<close>, with \<open>total_pages\<close> the ceiling of the number of rows over the
  limit and \<open>has_next\<close> true exactly when the page is before the last. With 23 doctors
  and a limit of 10 there are 3 pages; pages 1 and 2 have a next page, page 3 has none.
\<close>

theorem doctor_listing_pagination:
  assumes page: "(case page_arg of None \<Rightarrow> Some 1 | Some s \<Rightarrow> int_str lib s) = Some page"
    and limit: "(case limit_arg of None \<Rightarrow> Some 10 | Some s \<Rightarrow> int_str lib s) = Some limit"
    and valid: "1 \<le> page" "1 \<le> limit" "limit \<le> 50"
    and skip: "(page - 1) * limit \<le> 2 ^ 63 - 1"
    and rows: "doctor_pipeline lib now db specialty location = Some rows"
  shows "get_available_doctors lib now db specialty location page_arg limit_arg =
           DoctorList (take (nat limit) (drop (nat ((page - 1) * limit)) rows))
             \<lparr>current_page = page,
              total_pages = \<lceil>real (length rows) / real_of_int limit\<rceil>,
              total_doctors = int (length rows),
              has_next = (page < \<lceil>real (length rows) / real_of_int limit\<rceil>)\<rparr>"
proof -
  have "(int (length rows) + limit - 1) div limit = \<lceil>real (length rows) / real_of_int limit\<rceil>"
    using ceil_div [of limit "int (length rows)"] valid by simp
  then show ?thesis
    using valid skip_limit_encoded [OF valid skip]
    by (simp add: get_available_doctors_def aggregate_page_def aggregate_count_def
        page limit rows Let_def)
qed

theorem doctor_listing_pagination_witness:
  "doctor_pipeline sample_lib sample_now (doctors_db 23) None None = Some (map numbered_summary [0..<23]) \<and>
   get_available_doctors sample_lib sample_now (doctors_db 23) None None (Some ''1'') (Some ''10'') =
     DoctorList (map numbered_summary [0..<10])
       \<lparr>current_page = 1, total_pages = 3, total_doctors = 23, has_next = True\<rparr> \<and>
   get_available_doctors sample_lib sample_now (doctors_db 23) None None (Some ''2'') None =
     DoctorList (map numbered_summary [10..<20])
       \<lparr>current_page = 2, total_pages = 3, total_doctors = 23, has_next = True\<rparr> \<and>
   get_available_doctors sample_lib sample_now (doctors_db 23) None None (Some ''3'') None =
     DoctorList (map numbered_summary [20..<23])
       \<lparr>current_page = 3, total_pages = 3, total_doctors = 23, has_next = False\<rparr>"
proof -
  have rows: "doctor_pipeline sample_lib sample_now (doctors_db 23) None None = Some (map numbered_summary [0..<23])"
    by code_simp
  have c: "\<lceil>(23::real) / 10\<rceil> = 3"
    by (simp add: ceiling_eq_iff)
  have p1: "get_available_doctors sample_lib sample_now (doctors_db 23) None None (Some ''1'') (Some ''10'') =
     DoctorList (map numbered_summary [0..<10])
       \<lparr>current_page = 1, total_pages = 3, total_doctors = 23, has_next = True\<rparr>"
    using doctor_listing_pagination [where page_arg = "Some ''1''" and limit_arg = "Some ''10''"
        and lib = sample_lib and page = 1 and limit = 10, OF _ _ _ _ _ _ rows]
    by (simp add: sample_lib_def c take_map drop_map)
  have p2: "get_available_doctors sample_lib sample_now (doctors_db 23) None None (Some ''2'') None =
     DoctorList (map numbered_summary [10..<20])
       \<lparr>current_page = 2, total_pages = 3, total_doctors = 23, has_next = True\<rparr>"
    using doctor_listing_pagination [where page_arg = "Some ''2''" and limit_arg = None
        and lib = sample_lib and page = 2 and limit = 10, OF _ _ _ _ _ _ rows]
    by (simp add: sample_lib_def c take_map drop_map)
  have p3: "get_available_doctors sample_lib sample_now (doctors_db 23) None None (Some ''3'') None =
     DoctorList (map numbered_summary [20..<23])
       \<lparr>current_page = 3, total_pages = 3, total_doctors = 23, has_next = False\<rparr>"
    using doctor_listing_pagination [where page_arg = "Some ''3''" and limit_arg = None
        and lib = sample_lib and page = 3 and limit = 10, OF _ _ _ _ _ _ rows]
    by (simp add: sample_lib_def c take_map drop_map)
  show ?thesis
    using rows p1 p2 p3 by (simp only: simp_thms)
qed

text \<open>
  C9, as stated, fails for a page whose \<^verbatim>\<open>$skip\<close> is beyond 64 bits: with 3 doctors and a
  limit of 10 there is 1 page, page 922337203685477582 is beyond it, and the answer is a
  500.
\<close>

theorem doctor_listing_page_beyond_last_counterexample:
  "int_str sample_lib ''922337203685477582'' = Some 922337203685477582 \<and>
   int_str sample_lib ''10'' = Some 10 \<and> (1::int) \<le> 10 \<and> (10::int) \<le> 50 \<and>
   doctor_pipeline sample_lib sample_now (doctors_db 3) None None =
     Some (map numbered_summary [0..<3]) \<and>
   (int (length (map numbered_summary [0..<3])) + 10 - 1) div 10 < (922337203685477582::int) \<and>
   status_code (get_available_doctors sample_lib sample_now (doctors_db 3) None None
       (Some ''922337203685477582'') (Some ''10'')) = 500"
  by code_simp

text \<open>
  C9. For a limit from 1 to 50 and a page greater than \<open>total_pages\<close> whose \<^verbatim>\<open>$skip\<close>,
  \<open>(page - 1) * limit\<close>, is at most \<open>2 ^ 63 - 1\<close>, when the store answers the query, the
  listing is a 200 with no doctors and \<open>has_next\<close> false.
\<close>

theorem doctor_listing_page_beyond_last:
  assumes page: "(case page_arg of None \<Rightarrow> Some 1 | Some s \<Rightarrow> int_str lib s) = Some page"
    and limit: "(case limit_arg of None \<Rightarrow> Some 10 | Some s \<Rightarrow> int_str lib s) = Some limit"
    and valid: "1 \<le> limit" "limit \<le> 50"
    and skip: "(page - 1) * limit \<le> 2 ^ 63 - 1"
    and rows: "doctor_pipeline lib now db specialty location = Some rows"
    and beyond: "(int (length rows) + limit - 1) div limit < page"
  shows "get_available_doctors lib now db specialty location page_arg limit_arg =
           DoctorList []
             \<lparr>current_page = page,
              total_pages = (int (length rows) + limit - 1) div limit,
              total_doctors = int (length rows),
              has_next = False\<rparr> \<and>
         status_code (get_available_doctors lib now db specialty location page_arg limit_arg) = 200"
proof -
  have l: "0 < limit"
    using valid by simp
  have "0 \<le> (int (length rows) + limit - 1) div limit"
    using l by (simp add: pos_imp_zdiv_nonneg_iff)
  then have p: "1 \<le> page"
    using beyond by simp
  have "int (length rows) \<le> (page - 1) * limit"
    using beyond_last_page [OF l beyond] .
  then have "length rows \<le> nat ((page - 1) * limit)"
    by simp
  then have d: "drop (nat ((page - 1) * limit)) rows = []"
    by simp
  have r: "get_available_doctors lib now db specialty location page_arg limit_arg =
           DoctorList []
             \<lparr>current_page = page,
              total_pages = (int (length rows) + limit - 1) div limit,
              total_doctors = int (length rows),
              has_next = False\<rparr>"
    using valid p beyond skip_limit_encoded [OF p valid skip]
    by (simp add: get_available_doctors_def aggregate_page_def aggregate_count_def
        page limit rows Let_def d)
  show ?thesis
    unfolding r by simp
qed

theorem doctor_listing_page_beyond_last_witness:
  "doctor_pipeline sample_lib sample_now (doctors_db 3) None None = Some (map numbered_summary [0..<3]) \<and>
   (int (length (map numbered_summary [0..<3])) + 10 - 1) div 10 < (4::int) \<and>
   (4 - 1) * 10 \<le> (2 ^ 63 - 1 :: int) \<and>
   get_available_doctors sample_lib sample_now (doctors_db 3) None None (Some ''4'') (Some ''10'') =
     DoctorList [] \<lparr>current_page = 4, total_pages = 1, total_doctors = 3, has_next = False\<rparr> \<and>
   status_code (get_available_doctors sample_lib sample_now (doctors_db 3) None None (Some ''4'') (Some ''10'')) = 200"
proof -
  have rows: "doctor_pipeline sample_lib sample_now (doctors_db 3) None None = Some (map numbered_summary [0..<3])"
    by code_simp
  have b: "(int (length (map numbered_summary [0..<3])) + 10 - 1) div 10 < (4::int)"
    by simp
  have s: "(4 - 1) * 10 \<le> (2 ^ 63 - 1 :: int)"
    by simp
  show ?thesis
    using doctor_listing_page_beyond_last [where page_arg = "Some ''4''" and limit_arg = "Some ''10''"
        and lib = sample_lib and page = 4 and limit = 10, OF _ _ _ _ s rows b] rows
    by (simp add: sample_lib_def)
qed

section \<open>Booking: the start must be in the future\<close>

text \<open>
  C7. A booking request whose date parses to a start not after the clock fails and
  leaves the store as it was; once the checks before it pass (fields present, doctor id
  parses, doctor found) the failure is the 400 ``must be scheduled for future date''. A
  start equal to the clock is rejected. A start after the clock never gets that error.
\<close>

theorem booking_start_must_be_future:
  assumes date: "data ''appointment_date'' = Some v"
    and parse: "parse_appointment_date lib v = Some start"
  shows "(start \<le> now \<longrightarrow>
            (\<exists>code message. book_appointment lib now new_id room db user_id data = (Error code message, db))) \<and>
         (start \<le> now \<longrightarrow>
            find (missing data) [''doctor_id'', ''appointment_date'', ''duration'', ''consultation_type''] = None \<longrightarrow>
            data ''doctor_id'' = Some dv \<longrightarrow> ObjectId lib dv = Some doctor_id \<longrightarrow>
            find (\<lambda>u. u_id u = doctor_id \<and> u_role u = ''doctor'' \<and> u_is_active u) (users db) = Some doctor \<longrightarrow>
            book_appointment lib now new_id room db user_id data =
              (Error 400 ''Appointment must be scheduled for future date'', db)) \<and>
         (now < start \<longrightarrow>
            fst (book_appointment lib now new_id room db user_id data) \<noteq>
              Error 400 ''Appointment must be scheduled for future date'')"
proof (intro conjI impI)
  assume "start \<le> now"
  then show "\<exists>code message. book_appointment lib now new_id room db user_id data = (Error code message, db)"
    unfolding book_appointment_def by (simp add: date parse split: option.split)
next
  assume "start \<le> now"
    and "find (missing data) [''doctor_id'', ''appointment_date'', ''duration'', ''consultation_type''] = None"
    and "data ''doctor_id'' = Some dv" and "ObjectId lib dv = Some doctor_id"
    and "find (\<lambda>u. u_id u = doctor_id \<and> u_role u = ''doctor'' \<and> u_is_active u) (users db) = Some doctor"
  then show "book_appointment lib now new_id room db user_id data =
      (Error 400 ''Appointment must be scheduled for future date'', db)"
    unfolding book_appointment_def by (simp add: date parse)
next
  assume "now < start"
  then show "fst (book_appointment lib now new_id room db user_id data) \<noteq>
      Error 400 ''Appointment must be scheduled for future date''"
    unfolding book_appointment_def by (simp add: date parse Let_def split: option.split prod.split)
qed

theorem booking_start_must_be_future_witness:
  "parse_appointment_date sample_lib (JStr ''2030-01-01T00:00:00Z'') = Some sample_now \<and>
   book_appointment sample_lib sample_now 300 301 sample_db ''0000000000000000000000a1''
       (book_request ''2030-01-01T00:00:00Z'') =
     (Error 400 ''Appointment must be scheduled for future date'', sample_db) \<and>
   parse_appointment_date sample_lib (JStr ''2030-01-07T09:00:00Z'') = Some 1894006800000000 \<and>
   sample_now < 1894006800000000 \<and>
   fst (book_appointment sample_lib sample_now 300 301 sample_db ''0000000000000000000000a1''
         (book_request ''2030-01-07T09:00:00Z'')) \<noteq>
     Error 400 ''Appointment must be scheduled for future date''"
proof -
  have date: "book_request s ''appointment_date'' = Some (JStr s)" for s
    by (simp add: book_request_def)
  have now_parse: "parse_appointment_date sample_lib (JStr ''2030-01-01T00:00:00Z'') = Some sample_now"
    by code_simp
  have later_parse: "parse_appointment_date sample_lib (JStr ''2030-01-07T09:00:00Z'') = Some 1894006800000000"
    by code_simp
  have present: "find (missing (book_request ''2030-01-01T00:00:00Z''))
      [''doctor_id'', ''appointment_date'', ''duration'', ''consultation_type''] = None"
    by (simp add: book_request_def missing_def)
  have doctor_id: "book_request ''2030-01-01T00:00:00Z'' ''doctor_id'' = Some (JStr ''0000000000000000000000d1'')"
    by (simp add: book_request_def)
  have oid: "ObjectId sample_lib (JStr ''0000000000000000000000d1'') = Some 209"
    by (simp add: sample_lib_def)
  have doctor: "find (\<lambda>u. u_id u = 209 \<and> u_role u = ''doctor'' \<and> u_is_active u) (users sample_db) = Some dr_johnson"
    by (simp add: sample_db_def dr_johnson_def)
  have later: "sample_now < 1894006800000000"
    by (simp add: sample_now_def)
  have rejected: "book_appointment sample_lib sample_now 300 301 sample_db ''0000000000000000000000a1''
       (book_request ''2030-01-01T00:00:00Z'') =
     (Error 400 ''Appointment must be scheduled for future date'', sample_db)"
    using booking_start_must_be_future [where data = "book_request ''2030-01-01T00:00:00Z''"
        and now = sample_now and db = sample_db and dv = "JStr ''0000000000000000000000d1''"
        and doctor_id = 209 and doctor = dr_johnson, OF date now_parse]
      present doctor_id oid doctor
    by simp
  have not_rejected: "fst (book_appointment sample_lib sample_now 300 301 sample_db ''0000000000000000000000a1''
         (book_request ''2030-01-07T09:00:00Z'')) \<noteq>
     Error 400 ''Appointment must be scheduled for future date''"
    using booking_start_must_be_future [where data = "book_request ''2030-01-07T09:00:00Z''"
        and now = sample_now, OF date later_parse] later
    by simp
  show ?thesis
    using now_parse rejected later_parse later not_rejected by (simp only: simp_thms)
qed

section \<open>Registration of a doctor\<close>

lemma register_Registered:
  assumes "register lib now new_id db data = (Registered uid em user_type, db')"
  obtains email password first_name last_name where
    "create_account lib now new_id db data email password user_type first_name last_name =
       (Registered uid em user_type, db')"
proof -
  have "\<exists>email password ut first_name last_name.
          create_account lib now new_id db data email password ut first_name last_name =
            (Registered uid em user_type, db')"
    using assms unfolding register_def
    by (simp split: option.splits jval.splits if_splits prod.splits) blast?
  then obtain email password ut first_name last_name where
    c: "create_account lib now new_id db data email password ut first_name last_name =
            (Registered uid em user_type, db')"
    by blast
  then have "ut = user_type"
    unfolding create_account_def by (auto split: option.splits if_splits)
  with c that show thesis
    by blast
qed

text \<open>
  A registration that answers 201 for a doctor has stored the account and one more
  doctor profile. The profile's rating is 5.0 whatever the request holds (a rating in
  the request is never read); its specialty is the request's (default the empty string),
  its fee is \<^verbatim>\<open>float\<close> of the request's consultation fee (default 150.0) and its years of
  experience \<^verbatim>\<open>int\<close> of the request's (default 0).
\<close>

theorem doctor_registration_profile:
  assumes "register lib now new_id db data = (Registered uid em ''doctor'', db')"
  shows "\<exists>fee years u.
           (case data ''consultation_fee'' of None \<Rightarrow> Some (Finite 150) | Some v \<Rightarrow> py_float lib v) = Some fee \<and>
           (case data ''years_experience'' of None \<Rightarrow> Some 0 | Some v \<Rightarrow> py_int lib v) = Some years \<and>
           uid = new_id \<and> u_id u = new_id \<and> u_role u = ''doctor'' \<and>
           users db' = users db @ [u] \<and>
           doctor_profiles db' = doctor_profiles db @
             [\<lparr>dp_user_id = new_id,
               dp_medical_license = get_default data ''medical_license'' (JStr []),
               dp_specialty = get_default data ''specialty'' (JStr []),
               dp_consultation_fee = fee,
               dp_rating = Finite 5,
               dp_years_experience = years\<rparr>]"
proof -
  from assms obtain email password first_name last_name where
    "create_account lib now new_id db data email password ''doctor'' first_name last_name =
       (Registered uid em ''doctor'', db')"
    by (rule register_Registered) simp
  then show ?thesis
    unfolding create_account_def insert_user_def user_doc_def
    by (auto split: option.splits if_splits)
qed

theorem doctor_registration_profile_witness:
  "patel_request ''rating'' = Some (JInt 1) \<and>
   register sample_lib sample_now 210 sample_db patel_request =
     (Registered 210 ''dr.patel@mediconnect.com'' ''doctor'',
      sample_db\<lparr>users := [dr_johnson, john_smith, dr_patel],
                doctor_profiles := [johnson_profile, patel_profile]\<rparr>) \<and>
   dp_rating patel_profile = Finite 5 \<and>
   dp_specialty patel_profile = JStr ''Family Medicine'' \<and>
   dp_consultation_fee patel_profile = Finite 100 \<and>
   dp_years_experience patel_profile = 15"
proof -
  have registered: "register sample_lib sample_now 210 sample_db patel_request =
     (Registered 210 ''dr.patel@mediconnect.com'' ''doctor'',
      sample_db\<lparr>users := [dr_johnson, john_smith, dr_patel],
                doctor_profiles := [johnson_profile, patel_profile]\<rparr>)"
    by code_simp
  have data: "patel_request ''rating'' = Some (JInt 1)"
     "patel_request ''specialty'' = Some (JStr ''Family Medicine'')"
     "patel_request ''consultation_fee'' = Some (JInt 100)"
     "patel_request ''years_experience'' = Some (JInt 15)"
    by (simp_all add: patel_request_def register_request_def)
  show ?thesis
    using doctor_registration_profile [OF registered] registered data
    by (simp add: sample_db_def get_default_def sample_lib_def patel_profile_def)
qed

text \<open>
  C10. A doctor account that registration creates without a profile: a doctor's request
  whose years of experience are null is answered 500 (\<^verbatim>\<open>int(None)\<close> raises) after the
  user document is inserted. The store then holds the doctor account 210 and no doctor
  profile of it.
\<close>

theorem doctor_account_without_profile:
  "register sample_lib sample_now 210 sample_db
       (register_request ''dr.patel@mediconnect.com'' ''doctor'' [(''years_experience'', JNull)]) =
     (Error 500 ''Registration failed'', sample_db\<lparr>users := [dr_johnson, john_smith, dr_patel]\<rparr>) \<and>
   u_id dr_patel = 210 \<and> u_role dr_patel = ''doctor'' \<and>
   \<not> list_ex (\<lambda>p. dp_user_id p = 210)
       (doctor_profiles (sample_db\<lparr>users := [dr_johnson, john_smith, dr_patel]\<rparr>))"
  by code_simp

section \<open>Booking: the order of validation\<close>

lemma first_failure_Cons:
  "first_failure ((ok, e) # cs) = (if ok then first_failure cs else Some e)"
  by (simp add: first_failure_def)

lemma first_failure_Nil: "first_failure [] = None"
  by (simp add: first_failure_def)

lemma check_fields_find: "check_fields data \<longleftrightarrow> find (missing data) booking_fields = None"
  by (auto simp: check_fields_def find_None_iff list_all_iff)

lemma check_fields_present:
  assumes "check_fields data" "f \<in> set booking_fields"
  shows "\<exists>v. data f = Some v"
  using assms by (auto simp: check_fields_def list_all_iff missing_def split: option.splits)

lemma check_doctor_idD:
  assumes "check_doctor_id lib data"
  obtains v d where "data ''doctor_id'' = Some v" "ObjectId lib v = Some d"
  using assms by (auto simp: check_doctor_id_def split: option.splits)

lemma check_dateD:
  assumes "check_date lib data"
  obtains v t where "data ''appointment_date'' = Some v" "parse_appointment_date lib v = Some t"
  using assms by (auto simp: check_date_def split: option.splits)

lemma check_durationD:
  assumes "check_duration data"
  obtains d where "data ''duration'' = Some (JInt d)" "duration_in_list (JInt d) = Some d"
  using assms by (auto simp: check_duration_def split: option.splits jval.splits)

lemma check_consultation_typeD:
  assumes "check_consultation_type data"
  obtains t where "data ''consultation_type'' = Some (JStr t)"
    "consultation_type_in_list (JStr t) = Some t"
  using assms by (auto simp: check_consultation_type_def split: option.splits jval.splits)

lemma not_check_duration:
  assumes "\<not> check_duration data" "data ''duration'' = Some dv"
  shows "duration_in_list dv = None"
  using assms by (cases dv) (auto simp: check_duration_def)

lemma not_check_consultation_type:
  assumes "\<not> check_consultation_type data" "data ''consultation_type'' = Some cv"
  shows "consultation_type_in_list cv = None"
  using assms by (cases cv) (auto simp: check_consultation_type_def)

lemma book_fields:
  assumes "\<not> check_fields data"
  shows "book_appointment lib now new_id room db user_id data =
           (Error 400 (''Missing required field: '' @
              (case find (missing data) booking_fields of Some f \<Rightarrow> f | None \<Rightarrow> [])), db)"
proof -
  from assms obtain f where "find (missing data) booking_fields = Some f"
    by (auto simp: check_fields_find)
  then show ?thesis
    unfolding book_appointment_def booking_fields_def by simp
qed

lemma book_doctor_id:
  assumes "check_fields data" "\<not> check_doctor_id lib data"
  shows "book_appointment lib now new_id room db user_id data =
           (Error 400 ''Invalid doctor ID format'', db)"
proof -
  have "(case data ''doctor_id'' of None \<Rightarrow> None | Some v \<Rightarrow> ObjectId lib v) = None"
    using assms(2) by (simp add: check_doctor_id_def split: option.splits)
  then show ?thesis
    using assms(1) unfolding book_appointment_def check_fields_find booking_fields_def
    by simp
qed

lemma book_doctor:
  assumes "check_fields data" "check_doctor_id lib data" "\<not> check_doctor lib db data"
  shows "book_appointment lib now new_id room db user_id data =
           (Error 404 ''Doctor not found or inactive'', db)"
proof -
  from assms(2) obtain v d where v: "data ''doctor_id'' = Some v" "ObjectId lib v = Some d"
    by (rule check_doctor_idD)
  have "find (\<lambda>u. u_id u = d \<and> u_role u = ''doctor'' \<and> u_is_active u) (users db) = None"
    using assms(3) v by (simp add: check_doctor_def list_ex_iff find_None_iff)
  then show ?thesis
    using assms(1) v unfolding book_appointment_def check_fields_find booking_fields_def
    by simp
qed

lemma check_doctor_find:
  assumes "check_doctor lib db data" "data ''doctor_id'' = Some v" "ObjectId lib v = Some d"
  obtains doctor where
    "find (\<lambda>u. u_id u = d \<and> u_role u = ''doctor'' \<and> u_is_active u) (users db) = Some doctor"
proof -
  have "find (\<lambda>u. u_id u = d \<and> u_role u = ''doctor'' \<and> u_is_active u) (users db) \<noteq> None"
    using assms by (auto simp: check_doctor_def list_ex_iff find_None_iff)
  with that show thesis
    by blast
qed

lemma book_date:
  assumes "check_fields data" "check_doctor_id lib data" "check_doctor lib db data"
    "\<not> check_date lib data"
  shows "book_appointment lib now new_id room db user_id data =
           (Error 400 ''Invalid appointment date format. Use ISO 8601 (e.g., 2025-07-25T14:00:00Z)'', db)"
proof -
  from assms(2) obtain v d where v: "data ''doctor_id'' = Some v" "ObjectId lib v = Some d"
    by (rule check_doctor_idD)
  from assms(3) v obtain doctor where
    doctor: "find (\<lambda>u. u_id u = d \<and> u_role u = ''doctor'' \<and> u_is_active u) (users db) = Some doctor"
    by (rule check_doctor_find)
  have "(case data ''appointment_date'' of None \<Rightarrow> None | Some v \<Rightarrow> parse_appointment_date lib v) = None"
    using assms(4) by (simp add: check_date_def split: option.splits)
  then show ?thesis
    using assms(1) v doctor unfolding book_appointment_def check_fields_find booking_fields_def
    by simp
qed

lemma book_future:
  assumes "check_fields data" "check_doctor_id lib data" "check_doctor lib db data"
    "check_date lib data" "\<not> check_future lib now data"
  shows "book_appointment lib now new_id room db user_id data =
           (Error 400 ''Appointment must be scheduled for future date'', db)"
proof -
  from assms(2) obtain v d where v: "data ''doctor_id'' = Some v" "ObjectId lib v = Some d"
    by (rule check_doctor_idD)
  from assms(3) v obtain doctor where
    doctor: "find (\<lambda>u. u_id u = d \<and> u_role u = ''doctor'' \<and> u_is_active u) (users db) = Some doctor"
    by (rule check_doctor_find)
  from assms(4) obtain w t where w: "data ''appointment_date'' = Some w"
      "parse_appointment_date lib w = Some t"
    by (rule check_dateD)
  have "t \<le> now"
    using assms(5) w by (simp add: check_future_def)
  then show ?thesis
    using assms(1) v doctor w unfolding book_appointment_def check_fields_find booking_fields_def
    by simp
qed

lemma book_duration:
  assumes "check_fields data" "check_doctor_id lib data" "check_doctor lib db data"
    "check_date lib data" "check_future lib now data" "\<not> check_duration data"
  shows "book_appointment lib now new_id room db user_id data =
           (Error 400 ''Invalid duration. Must be 15, 30, 45, or 60 minutes'', db)"
proof -
  from assms(2) obtain v d where v: "data ''doctor_id'' = Some v" "ObjectId lib v = Some d"
    by (rule check_doctor_idD)
  from assms(3) v obtain doctor where
    doctor: "find (\<lambda>u. u_id u = d \<and> u_role u = ''doctor'' \<and> u_is_active u) (users db) = Some doctor"
    by (rule check_doctor_find)
  from assms(4) obtain w t where w: "data ''appointment_date'' = Some w"
      "parse_appointment_date lib w = Some t"
    by (rule check_dateD)
  have t: "\<not> t \<le> now"
    using assms(5) w by (simp add: check_future_def)
  obtain dv where dv: "data ''duration'' = Some dv"
    using check_fields_present [OF assms(1), of "''duration''"] by (auto simp: booking_fields_def)
  obtain cv where cv: "data ''consultation_type'' = Some cv"
    using check_fields_present [OF assms(1), of "''consultation_type''"]
    by (auto simp: booking_fields_def)
  have "duration_in_list dv = None"
    using assms(6) dv by (rule not_check_duration)
  then show ?thesis
    using assms(1) v doctor w t dv cv
    unfolding book_appointment_def check_fields_find booking_fields_def
    by simp
qed

lemma book_consultation_type:
  assumes "check_fields data" "check_doctor_id lib data" "check_doctor lib db data"
    "check_date lib data" "check_future lib now data" "check_duration data"
    "\<not> check_consultation_type data"
  shows "book_appointment lib now new_id room db user_id data =
           (Error 400 ''Invalid consultation type'', db)"
proof -
  from assms(2) obtain v d where v: "data ''doctor_id'' = Some v" "ObjectId lib v = Some d"
    by (rule check_doctor_idD)
  from assms(3) v obtain doctor where
    doctor: "find (\<lambda>u. u_id u = d \<and> u_role u = ''doctor'' \<and> u_is_active u) (users db) = Some doctor"
    by (rule check_doctor_find)
  from assms(4) obtain w t where w: "data ''appointment_date'' = Some w"
      "parse_appointment_date lib w = Some t"
    by (rule check_dateD)
  have t: "\<not> t \<le> now"
    using assms(5) w by (simp add: check_future_def)
  from assms(6) obtain n where n: "data ''duration'' = Some (JInt n)"
      "duration_in_list (JInt n) = Some n"
    by (rule check_durationD)
  obtain cv where cv: "data ''consultation_type'' = Some cv"
    using check_fields_present [OF assms(1), of "''consultation_type''"]
    by (auto simp: booking_fields_def)
  have "consultation_type_in_list cv = None"
    using assms(7) cv by (rule not_check_consultation_type)
  then show ?thesis
    using assms(1) v doctor w t n cv
    unfolding book_appointment_def check_fields_find booking_fields_def
    by simp
qed

lemma book_valid:
  assumes "check_fields data" "check_doctor_id lib data" "check_doctor lib db data"
    "check_date lib data" "check_future lib now data" "check_duration data"
    "check_consultation_type data"
  shows "fst (book_appointment lib now new_id room db user_id data) = Error 409 ''Time slot no longer available'' \<or>
         fst (book_appointment lib now new_id room db user_id data) = Error 500 ''Failed to book appointment'' \<or>
         (\<exists>a f l. fst (book_appointment lib now new_id room db user_id data) = Booked a f l)"
proof -
  from assms(2) obtain v d where v: "data ''doctor_id'' = Some v" "ObjectId lib v = Some d"
    by (rule check_doctor_idD)
  from assms(3) v obtain doctor where
    doctor: "find (\<lambda>u. u_id u = d \<and> u_role u = ''doctor'' \<and> u_is_active u) (users db) = Some doctor"
    by (rule check_doctor_find)
  from assms(4) obtain w t where w: "data ''appointment_date'' = Some w"
      "parse_appointment_date lib w = Some t"
    by (rule check_dateD)
  have t: "\<not> t \<le> now"
    using assms(5) w by (simp add: check_future_def)
  from assms(6) obtain n where n: "data ''duration'' = Some (JInt n)"
      "duration_in_list (JInt n) = Some n"
    by (rule check_durationD)
  from assms(7) obtain c where c: "data ''consultation_type'' = Some (JStr c)"
      "consultation_type_in_list (JStr c) = Some c"
    by (rule check_consultation_typeD)
  show ?thesis
    using assms(1) v doctor w t n c
    unfolding book_appointment_def check_fields_find booking_fields_def
    by (simp add: Let_def split: option.split)
qed

text \<open>
  C5. \<^verbatim>\<open>book_appointment\<close> validates in the order of the specification: when a check
  fails, the response is that of the first failing check and the store is unchanged;
  when none fails, the response is none of the validation errors. In particular, once
  the fields are present, the doctor id parses, the doctor is found and the date parses,
  a start that is not in the future gets the must-be-future error whatever the duration
  and the consultation type are.
\<close>

theorem booking_validation_order:
  "(\<forall>e. first_failure (spec_booking_checks lib now db data) = Some e \<longrightarrow>
        book_appointment lib now new_id room db user_id data = (e, db)) \<and>
   (first_failure (spec_booking_checks lib now db data) = None \<longrightarrow>
        fst (book_appointment lib now new_id room db user_id data)
          \<notin> snd ` set (spec_booking_checks lib now db data)) \<and>
   (check_fields data \<and> check_doctor_id lib data \<and> check_doctor lib db data \<and>
    check_date lib data \<and> \<not> check_future lib now data \<longrightarrow>
        book_appointment lib now new_id room db user_id data =
          (Error 400 ''Appointment must be scheduled for future date'', db))"
proof (intro conjI allI impI)
  fix e
  assume "first_failure (spec_booking_checks lib now db data) = Some e"
  then show "book_appointment lib now new_id room db user_id data = (e, db)"
    unfolding spec_booking_checks_def first_failure_Cons first_failure_Nil
    by (auto simp: book_fields book_doctor_id book_doctor book_date book_future book_duration
        book_consultation_type split: if_splits)
next
  assume "first_failure (spec_booking_checks lib now db data) = None"
  then have all: "check_fields data" "check_doctor_id lib data" "check_doctor lib db data"
    "check_date lib data" "check_future lib now data" "check_duration data"
    "check_consultation_type data"
    unfolding spec_booking_checks_def first_failure_Cons first_failure_Nil
    by (simp_all split: if_splits)
  from book_valid [OF all, of new_id room user_id]
  show "fst (book_appointment lib now new_id room db user_id data)
          \<notin> snd ` set (spec_booking_checks lib now db data)"
    unfolding spec_booking_checks_def by auto
next
  assume "check_fields data \<and> check_doctor_id lib data \<and> check_doctor lib db data \<and>
    check_date lib data \<and> \<not> check_future lib now data"
  then show "book_appointment lib now new_id room db user_id data =
          (Error 400 ''Appointment must be scheduled for future date'', db)"
    by (simp add: book_future)
qed

theorem booking_validation_order_witness:
  "check_fields past_request \<and> check_doctor_id sample_lib past_request \<and>
   check_doctor sample_lib sample_db past_request \<and> check_date sample_lib past_request \<and>
   \<not> check_future sample_lib sample_now past_request \<and>
   \<not> check_duration past_request \<and> \<not> check_consultation_type past_request \<and>
   first_failure (spec_booking_checks sample_lib sample_now sample_db past_request) =
     Some (Error 400 ''Appointment must be scheduled for future date'') \<and>
   book_appointment sample_lib sample_now 300 301 sample_db ''0000000000000000000000a1'' past_request =
     (Error 400 ''Appointment must be scheduled for future date'', sample_db) \<and>
   first_failure (spec_booking_checks sample_lib sample_now sample_db
       (book_request ''2030-01-07T09:00:00Z'')) = None \<and>
   fst (book_appointment sample_lib sample_now 300 301 sample_db ''0000000000000000000000a1''
         (book_request ''2030-01-07T09:00:00Z''))
     \<notin> snd ` set (spec_booking_checks sample_lib sample_now sample_db
           (book_request ''2030-01-07T09:00:00Z''))"
proof -
  have checks: "check_fields past_request" "check_doctor_id sample_lib past_request"
    "check_doctor sample_lib sample_db past_request" "check_date sample_lib past_request"
    "\<not> check_future sample_lib sample_now past_request"
    "\<not> check_duration past_request" "\<not> check_consultation_type past_request"
    by code_simp+
  have first: "first_failure (spec_booking_checks sample_lib sample_now sample_db past_request) =
     Some (Error 400 ''Appointment must be scheduled for future date'')"
    using checks
    by (simp add: spec_booking_checks_def first_failure_Cons)
  have valid: "first_failure (spec_booking_checks sample_lib sample_now sample_db
       (book_request ''2030-01-07T09:00:00Z'')) = None"
    by code_simp
  note order = booking_validation_order [where lib = sample_lib and now = sample_now
      and db = sample_db and new_id = 300 and room = 301 and user_id = "''0000000000000000000000a1''"]
  have past: "book_appointment sample_lib sample_now 300 301 sample_db ''0000000000000000000000a1'' past_request =
     (Error 400 ''Appointment must be scheduled for future date'', sample_db)"
    using order [of past_request] first by blast
  have future: "fst (book_appointment sample_lib sample_now 300 301 sample_db ''0000000000000000000000a1''
         (book_request ''2030-01-07T09:00:00Z''))
     \<notin> snd ` set (spec_booking_checks sample_lib sample_now sample_db
           (book_request ''2030-01-07T09:00:00Z''))"
    using order [of "book_request ''2030-01-07T09:00:00Z''"] valid by blast
  show ?thesis
    using checks first past valid future by (simp only: simp_thms)
qed

section \<open>Registration: what a failure leaves behind\<close>

lemma insert_user_Some:
  "insert_user db u = Some db1 \<Longrightarrow> db1 = db\<lparr>users := users db @ [u]\<rparr>"
  by (simp add: insert_user_def split: if_splits)

lemma create_account_effect:
  assumes "create_account lib now new_id db data email password user_type first_name last_name = (r, db')"
  shows "(r = Error 500 ''Registration failed'' \<and> db' = db) \<or>
         (\<exists>u. r = Error 500 ''Registration failed'' \<and> user_type = ''doctor'' \<and>
              db' = db\<lparr>users := users db @ [u]\<rparr>) \<or>
         (\<exists>u p. r = Registered new_id email user_type \<and> user_type = ''doctor'' \<and>
              db' = db\<lparr>users := users db @ [u], doctor_profiles := doctor_profiles db @ [p]\<rparr>) \<or>
         (\<exists>u p. r = Registered new_id email user_type \<and> user_type \<noteq> ''doctor'' \<and>
              db' = db\<lparr>users := users db @ [u], patient_profiles := patient_profiles db @ [p]\<rparr>)"
proof (cases "insert_user db (user_doc lib now new_id data email password user_type first_name last_name)")
  case None
  then show ?thesis
    using assms by (simp add: create_account_def)
next
  case (Some db1)
  then have db1: "db1 = db\<lparr>users := users db @
      [user_doc lib now new_id data email password user_type first_name last_name]\<rparr>"
    by (rule insert_user_Some)
  show ?thesis
  proof (cases "user_type = ''doctor''")
    case False
    then show ?thesis
      using assms Some db1 by (auto simp: create_account_def)
  next
    case True
    then show ?thesis
      using assms Some db1 by (auto simp: create_account_def split: option.splits)
  qed
qed

lemma register_cases:
  "(\<exists>code message. register lib now new_id db data = (Error code message, db)) \<or>
   (\<exists>email password user_type first_name last_name.
      register lib now new_id db data =
        create_account lib now new_id db data email password user_type first_name last_name)"
  unfolding register_def
  by (auto split: option.split jval.split prod.split) blast+

lemma register_effect:
  assumes "register lib now new_id db data = (r, db')"
  shows "(\<exists>code message. r = Error code message \<and> db' = db) \<or>
         (\<exists>u. r = Error 500 ''Registration failed'' \<and> db' = db\<lparr>users := users db @ [u]\<rparr>) \<or>
         (\<exists>uid em u p. r = Registered uid em ''doctor'' \<and>
            db' = db\<lparr>users := users db @ [u], doctor_profiles := doctor_profiles db @ [p]\<rparr>) \<or>
         (\<exists>uid em user_type u p. r = Registered uid em user_type \<and>
            db' = db\<lparr>users := users db @ [u], patient_profiles := patient_profiles db @ [p]\<rparr>)"
  using register_cases [of lib now new_id db data]
proof (elim disjE exE)
  fix code message
  assume "register lib now new_id db data = (Error code message, db)"
  with assms have "r = Error code message \<and> db' = db"
    by simp
  then show ?thesis
    by blast
next
  fix email password user_type first_name last_name
  assume "register lib now new_id db data =
      create_account lib now new_id db data email password user_type first_name last_name"
  with assms have
    "create_account lib now new_id db data email password user_type first_name last_name = (r, db')"
    by simp
  from create_account_effect [OF this] show ?thesis
    by blast
qed

lemma register_same_case_duplicate:
  assumes "find (missing data) [''email'', ''password'', ''user_type'', ''first_name'', ''last_name''] = None"
    and "data ''email'' = Some (JStr email)" and "validate_email email"
    and "data ''password'' = Some (JStr password)" and "validate_password password"
    and "u \<in> set (users db)" and "u_email u = email"
  shows "register lib now new_id db data = (Error 409 ''Email already registered'', db)"
proof -
  have "find (\<lambda>u. u_email u = email) (users db) \<noteq> None"
    using assms(6,7) by (auto simp: find_None_iff)
  then show ?thesis
    using assms(1-5) unfolding register_def by simp
qed

text \<open>
  C4. Registering with the email of an account in another letter case. John Smith's
  account has the email \<^verbatim>\<open>john.smith@email.com\<close>; a registration with
  \<^verbatim>\<open>John.Smith@email.com\<close> is not answered 409: the lookup compares the email as sent,
  the document stores it in lower case. With the unique index the insert raises and the
  answer is 500; without it the answer is 201 and two accounts have the same email.
\<close>

theorem duplicate_email_in_other_case:
  "u_email john_smith = ''john.smith@email.com'' \<and>
   lower ''John.Smith@email.com'' = ''john.smith@email.com'' \<and>
   register sample_lib sample_now 162 sample_db
       (register_request ''John.Smith@email.com'' ''patient'' []) =
     (Error 500 ''Registration failed'', sample_db) \<and>
   fst (register sample_lib sample_now 162 (sample_db\<lparr>users_email_unique := False\<rparr>)
       (register_request ''John.Smith@email.com'' ''patient'' [])) =
     Registered 162 ''John.Smith@email.com'' ''patient'' \<and>
   map u_email (users (snd (register sample_lib sample_now 162 (sample_db\<lparr>users_email_unique := False\<rparr>)
       (register_request ''John.Smith@email.com'' ''patient'' [])))) =
     [''dr.johnson@mediconnect.com'', ''john.smith@email.com'', ''john.smith@email.com'']"
  by code_simp

text \<open>
  C3. A failure of \<^verbatim>\<open>register\<close> after the user document is inserted: a doctor's request
  whose consultation fee is null is answered 500 (\<^verbatim>\<open>float(None)\<close> raises), and the store
  then holds the new account without a profile.
\<close>

theorem failed_registration_keeps_account:
  "register sample_lib sample_now 210 sample_db
       (register_request ''dr.patel@mediconnect.com'' ''doctor'' [(''consultation_fee'', JNull)]) =
     (Error 500 ''Registration failed'', sample_db\<lparr>users := [dr_johnson, john_smith, dr_patel]\<rparr>) \<and>
   users sample_db = [dr_johnson, john_smith] \<and>
   doctor_profiles (sample_db\<lparr>users := [dr_johnson, john_smith, dr_patel]\<rparr>) = [johnson_profile]"
  by code_simp

section \<open>Booking: what it writes\<close>

text \<open>
  A booking that fails leaves the store as it was, and one that succeeds appends one
  appointment and changes nothing else; the same holds behind the role check.
\<close>

lemma book_appointment_cases:
  "(\<exists>code message. book_appointment lib now new_id room db user_id data = (Error code message, db)) \<or>
   (\<exists>a f l. book_appointment lib now new_id room db user_id data =
      (Booked a f l, db\<lparr>appointments := appointments db @ [a]\<rparr>))"
  unfolding book_appointment_def
  by (auto simp: Let_def split: option.split prod.split)

lemma book_appointment_effect:
  assumes "book_appointment lib now new_id room db user_id data = (r, db')"
  shows "(\<exists>code message. r = Error code message \<and> db' = db) \<or>
         (\<exists>a f l. r = Booked a f l \<and> db' = db\<lparr>appointments := appointments db @ [a]\<rparr>)"
  using book_appointment_cases [of lib now new_id room db user_id data] assms
  by auto

lemma book_appointment_route_effect:
  assumes "book_appointment_route lib now new_id room db user_id data = (r, db')"
  shows "(\<exists>code message. r = Error code message \<and> db' = db) \<or>
         (\<exists>a f l. r = Booked a f l \<and> db' = db\<lparr>appointments := appointments db @ [a]\<rparr>)"
proof (cases "book_appointment_route lib now new_id room db user_id data =
    book_appointment lib now new_id room db user_id data")
  case True
  with assms have "book_appointment lib now new_id room db user_id data = (r, db')"
    by simp
  then show ?thesis
    by (rule book_appointment_effect)
next
  case False
  then have "\<exists>code message. book_appointment_route lib now new_id room db user_id data =
      (Error code message, db)"
    unfolding book_appointment_route_def by (auto split: option.splits if_splits)
  with assms show ?thesis
    by auto
qed

section \<open>Booking: the conflict check\<close>

text \<open>
  With the third alternative of the query reduced to \<open>a_appointment_date a < end_time\<close>,
  an appointment of the doctor that is neither cancelled nor no_show conflicts as soon as
  it starts before the proposed end, whenever it ends.
\<close>

lemma conflict_query_iff:
  assumes "appointment_date < end_time"
  shows "conflict_query doctor_id appointment_date end_time a \<longleftrightarrow>
           a_doctor_id a = doctor_id \<and> a_status a \<notin> set [''cancelled'', ''no_show''] \<and>
           a_appointment_date a < end_time"
  using assms unfolding conflict_query_def by auto

text \<open>An overlap in the sense of the specification is found by the query.\<close>

lemma spec_conflict_is_found:
  assumes "spec_has_conflict db doctor_id appointment_date end_time"
  shows "find (conflict_query doctor_id appointment_date end_time) (appointments db) \<noteq> None"
  using assms
  unfolding spec_has_conflict_def spec_overlap_def conflict_query_def list_ex_iff find_None_iff
  by auto

text \<open>What the query finds is an appointment of the same doctor, not cancelled, not no_show.\<close>

lemma conflict_found_same_doctor_active:
  assumes "find (conflict_query doctor_id appointment_date end_time) (appointments db) = Some a"
  shows "a \<in> set (appointments db) \<and> a_doctor_id a = doctor_id \<and>
         a_status a \<noteq> ''cancelled'' \<and> a_status a \<noteq> ''no_show''"
  using assms unfolding find_Some_iff conflict_query_def by (auto simp: in_set_conv_nth)

text \<open>An appointment that starts where the proposed slot ends is no conflict.\<close>

lemma starts_at_proposed_end_no_conflict:
  assumes "appointment_date < end_time" "a_appointment_date a = end_time"
  shows "\<not> conflict_query doctor_id appointment_date end_time a"
  using assms unfolding conflict_query_def by auto

text \<open>
  Against the appointment from 10:00 to 10:30, a request for 10:15 to 10:45 is answered
  409 and one for 09:00 to 09:30 is booked.
\<close>

lemma overlapping_slot_rejected:
  "fst (book_appointment sample_lib sample_now 300 301 sample_db ''0000000000000000000000a1''
         (book_request ''2030-01-07T10:15:00Z'')) =
     Error 409 ''Time slot no longer available''"
  by code_simp

lemma earlier_slot_booked:
  "status_code (fst (book_appointment sample_lib sample_now 300 301 sample_db
       ''0000000000000000000000a1'' (book_request ''2030-01-07T09:00:00Z''))) = 201"
  by code_simp

text \<open>
  C1. Dr Johnson has a confirmed appointment from 10:00 to 10:30. A request for 10:30 to
  11:00, which starts where that appointment ends and does not overlap it, is answered
  409: the query reports a conflict.
\<close>

theorem back_to_back_booking_rejected:
  "a_doctor_id ten_to_half_past = 209 \<and> a_status ten_to_half_past = ''confirmed'' \<and>
   appointments sample_db = [ten_to_half_past] \<and>
   a_end_time ten_to_half_past = 1894012200000000 \<and>
   parse_appointment_date sample_lib (JStr ''2030-01-07T10:30:00Z'') = Some 1894012200000000 \<and>
   \<not> spec_has_conflict sample_db 209 1894012200000000 (1894012200000000 + timedelta_minutes 30) \<and>
   book_appointment sample_lib sample_now 300 301 sample_db ''0000000000000000000000a1''
       (book_request ''2030-01-07T10:30:00Z'') =
     (Error 409 ''Time slot no longer available'', sample_db)"
  by code_simp

text \<open>
  C2. A 409 without an overlapping appointment: the request for 14:00 to 14:30 on the
  same day overlaps no appointment of Dr Johnson, and is answered 409 because the
  appointment from 10:00 to 10:30 starts before 14:30.
\<close>

theorem later_slot_rejected_without_overlap:
  "parse_appointment_date sample_lib (JStr ''2030-01-07T14:00:00Z'') = Some 1894024800000000 \<and>
   \<not> spec_has_conflict sample_db 209 1894024800000000 (1894024800000000 + timedelta_minutes 30) \<and>
   fst (book_appointment sample_lib sample_now 300 301 sample_db ''0000000000000000000000a1''
         (book_request ''2030-01-07T14:00:00Z'')) =
     Error 409 ''Time slot no longer available''"
  by code_simp

end
